theory Spec2Isabelle
  imports Main "HOL-Library.Sublist"
begin

section \<open>String primitives of the Go standard library used by the tool\<close>

text \<open>Go strings are byte sequences; they are modelled as \<^typ>\<open>string\<close>, and every index
  is a byte index.\<close>

definition NL :: char where
  "NL = CHR 0x0A"

text \<open>\<open>strings.Index(s, sub)\<close>: index of the first occurrence of \<open>sub\<close> in \<open>s\<close>.  Go returns
  \<open>-1\<close> when there is none, and the callers only ever compare the result with \<open>-1\<close> before
  using it; \<open>None\<close> stands for \<open>-1\<close>.\<close>

fun strIndex :: "string \<Rightarrow> string \<Rightarrow> nat option" where
  "strIndex s sub =
     (if prefix sub s then Some 0
      else (case s of
              [] \<Rightarrow> None
            | _ # t \<Rightarrow> map_option Suc (strIndex t sub)))"

declare strIndex.simps [simp del]

text \<open>\<open>strings.Contains(s, sub)\<close> is \<open>strings.Index(s, sub) >= 0\<close>.\<close>

definition strContains :: "string \<Rightarrow> string \<Rightarrow> bool" where
  "strContains s sub = (strIndex s sub \<noteq> None)"

text \<open>\<open>strings.Split(s, "\n")\<close>: the pieces between line feeds; never empty.\<close>

fun splitLines :: "string \<Rightarrow> string list" where
  "splitLines [] = [[]]"
| "splitLines (c # cs) =
     (if c = NL then [] # splitLines cs
      else (case splitLines cs of
              [] \<Rightarrow> [[c]]
            | l # ls \<Rightarrow> (c # l) # ls))"

text \<open>\<open>strings.TrimPrefix(s, p)\<close>.\<close>

definition trimPrefix :: "string \<Rightarrow> string \<Rightarrow> string" where
  "trimPrefix s p = (if prefix p s then drop (length p) s else s)"

section \<open>Go integers, indexing and panics\<close>

text \<open>A Go \<open>int\<close> has 64 bits.  Its values are modelled as integers; \<open>goInt\<close> is the value a
  Go \<open>int\<close> takes when the mathematical result of an operation is \<open>x\<close> (it wraps around), and
  \<open>isGoInt\<close> says that \<open>x\<close> is the value of a Go \<open>int\<close>.\<close>

definition goInt :: "int \<Rightarrow> int" where
  "goInt x = (x + 2 ^ 63) mod 2 ^ 64 - 2 ^ 63"

definition isGoInt :: "int \<Rightarrow> bool" where
  "isGoInt x = (- (2 ^ 63) \<le> x \<and> x < 2 ^ 63)"

text \<open>A run of a function either returns a value or panics; an index expression \<open>xs[i]\<close>
  panics when the index is negative or not below the length.\<close>

datatype panic = IndexOutOfRange int

datatype 'a run = Panics panic | Returns 'a

definition indexAt :: "'a list \<Rightarrow> int \<Rightarrow> 'a option" where
  "indexAt xs i = (if 0 \<le> i \<and> i < int (length xs) then Some (xs ! nat i) else None)"

section \<open>Protocol data\<close>

text \<open>The declarations of \<open>protocol.Position\<close>, \<open>protocol.Range\<close> and \<open>protocol.Location\<close> are
  not among the sources; the fields are those the sources use.  \<open>Line\<close> and \<open>Character\<close> are Go
  \<open>int\<close> values: the locator stores a loop index and the result of \<open>strings.Index\<close> in them,
  and \<open>getCodeAtLocation\<close> compares them with \<open>len(lines)\<close>.  A position decoded from an answer
  of the subprocess may hold any Go \<open>int\<close>, also a negative one.\<close>

record Position =
  Line :: int
  Character :: int

record Range =
  Start :: Position
  End :: Position

record Location =
  URI :: string
  Range' :: Range

section \<open>The symbol locator\<close>

text \<open>The pattern list built for every line by \<open>findSymbolPosition\<close>.\<close>

definition patterns :: "string \<Rightarrow> string list" where
  "patterns symbol =
     [''func '' @ symbol @ ''('',
      ''func ('' @ symbol @ '')'',
      ''type '' @ symbol @ '' '',
      ''var '' @ symbol @ '' '',
      ''const '' @ symbol @ '' '',
      symbol @ '' :='',
      symbol @ '' ='']"

text \<open>The inner loop: the index of the first pattern, in list order, that occurs in the line.\<close>

fun firstPatternIdx :: "string \<Rightarrow> string list \<Rightarrow> nat option" where
  "firstPatternIdx line [] = None"
| "firstPatternIdx line (pattern # rest) =
     (case strIndex line pattern of
        Some idx \<Rightarrow> Some idx
      | None \<Rightarrow> firstPatternIdx line rest)"

text \<open>The outer loop over the lines, \<open>lineNum\<close> counting from the given number.  After the
  patterns the same line is searched for the bare symbol (\<open>strings.Contains\<close> followed by
  \<open>strings.Index\<close>, one search here) before the loop moves to the next line.  The line number
  and the index are below the length of the content, so they are Go \<open>int\<close> values as they
  stand.\<close>

fun scanLines :: "string \<Rightarrow> nat \<Rightarrow> string list \<Rightarrow> Position option" where
  "scanLines symbol lineNum [] = None"
| "scanLines symbol lineNum (line # rest) =
     (case firstPatternIdx line (patterns symbol) of
        Some idx \<Rightarrow> Some \<lparr>Line = int lineNum, Character = int idx\<rparr>
      | None \<Rightarrow>
          (case strIndex line symbol of
             Some idx \<Rightarrow> Some \<lparr>Line = int lineNum, Character = int idx\<rparr>
           | None \<Rightarrow> scanLines symbol (Suc lineNum) rest))"

definition findSymbolPosition :: "string \<Rightarrow> string \<Rightarrow> Position option" where
  "findSymbolPosition content symbol = scanLines symbol 0 (splitLines content)"

section \<open>Errors and formatting\<close>

text \<open>Go \<open>error\<close> values.  The first group are the failures of the language-server client,
  which the spec names without giving their message text; \<open>RequestError\<close> is any failed
  request (a time-out, an error response) with its message.  \<open>ReadFileError\<close> is the error of
  \<open>os.ReadFile\<close> with the message of the operating system.  \<open>Errorf\<close> is \<open>fmt.Errorf\<close> with a
  fixed message and \<open>Wrapf\<close> is \<open>fmt.Errorf("...: %w", err)\<close>.\<close>

datatype error =
    NotReadyError
  | AlreadyInitializedError
  | HandshakeError
  | ClosedError
  | TransportError string
  | RequestError string
  | ReadFileError string
  | Errorf string
  | Wrapf string error

text \<open>\<open>err.Error()\<close>, as printed by the verb \<open>%v\<close>.\<close>

fun errorText :: "error \<Rightarrow> string" where
  "errorText NotReadyError = ''NotReadyError''"
| "errorText AlreadyInitializedError = ''AlreadyInitializedError''"
| "errorText HandshakeError = ''HandshakeError''"
| "errorText ClosedError = ''ClosedError''"
| "errorText (TransportError msg) = msg"
| "errorText (RequestError msg) = msg"
| "errorText (ReadFileError msg) = msg"
| "errorText (Errorf msg) = msg"
| "errorText (Wrapf msg err) = msg @ '': '' @ errorText err"

definition SQ :: char where
  "SQ = CHR 0x27"

text \<open>The verb \<open>%d\<close>: the decimal digits, after a minus sign when the number is negative.\<close>

definition digitChar :: "nat \<Rightarrow> char" where
  "digitChar d = ''0123456789'' ! d"

fun showNat :: "nat \<Rightarrow> string" where
  "showNat n = (if n < 10 then [digitChar n] else showNat (n div 10) @ [digitChar (n mod 10)])"

declare showNat.simps [simp del]

definition showInt :: "int \<Rightarrow> string" where
  "showInt x = (if x < 0 then CHR ''-'' # showNat (nat (- x)) else showNat (nat x))"

text \<open>Reading a decimal numeral back, to say which number a printed text denotes.\<close>

definition digitValue :: "char \<Rightarrow> nat" where
  "digitValue ch = of_char ch - 48"

definition decimalValue :: "string \<Rightarrow> nat" where
  "decimalValue text = foldl (\<lambda>acc ch. 10 * acc + digitValue ch) 0 text"

definition signedValue :: "string \<Rightarrow> int" where
  "signedValue text =
     (case text of
        [] \<Rightarrow> 0
      | ch # rest \<Rightarrow>
          (if ch = CHR ''-'' then - int (decimalValue rest) else int (decimalValue text)))"

section \<open>The environment: files and the language-server client\<close>

text \<open>\<open>os.ReadFile\<close> on a file system: the content of the file, or the message of the error.
  \<open>noFiles\<close> is the file system in which no path names a file.\<close>

type_synonym files = "string \<Rightarrow> string + string"

definition noFiles :: files where
  "noFiles path = Inl (''open '' @ path @ '': no such file or directory'')"

text \<open>The type \<open>GoplsClient\<close> and its methods are not among the sources; the tool uses its
  field \<open>initialized\<close> and the methods \<open>Initialize\<close>, \<open>DidOpen\<close> and \<open>GoToDefinition\<close>.  They are a
  parameter of the model: operations on a client state \<open>'c\<close>, each returning its result and the
  state after the call.\<close>

record 'c GoplsClient =
  initialized :: "'c \<Rightarrow> bool"
  Initialize :: "'c \<Rightarrow> error option \<times> 'c"
  DidOpen :: "string \<Rightarrow> string \<Rightarrow> string \<Rightarrow> 'c \<Rightarrow> error option \<times> 'c"
  GoToDefinition :: "string \<Rightarrow> int \<Rightarrow> int \<Rightarrow> 'c \<Rightarrow> (error + Location list) \<times> 'c"

section \<open>The definition resolver\<close>

definition initializeWorkspace ::
  "'c GoplsClient \<Rightarrow> files \<Rightarrow> string \<Rightarrow> 'c \<Rightarrow> error option \<times> 'c" where
  "initializeWorkspace cl fs filePath c =
     (case (if \<not> initialized cl c then Initialize cl c else (None, c)) of
        (Some err, c1) \<Rightarrow> (Some (Wrapf ''failed to initialize gopls'' err), c1)
      | (None, c1) \<Rightarrow>
          (case fs filePath of
             Inl msg \<Rightarrow> (Some (Wrapf ''failed to read file content'' (ReadFileError msg)), c1)
           | Inr content \<Rightarrow>
               (let uri = ''file://'' @ filePath in
                case DidOpen cl uri ''go'' content c1 of
                  (Some err, c2) \<Rightarrow> (Some (Wrapf ''failed to open document in gopls'' err), c2)
                | (None, c2) \<Rightarrow> (None, c2))))"

definition getDefinitionAtPosition ::
  "'c GoplsClient \<Rightarrow> string \<Rightarrow> Position \<Rightarrow> 'c \<Rightarrow> (error + Location) \<times> 'c" where
  "getDefinitionAtPosition cl filePath position c =
     (let uri = ''file://'' @ filePath in
      case GoToDefinition cl uri (Line position) (Character position) c of
        (Inl err, c1) \<Rightarrow> (Inl err, c1)
      | (Inr locations, c1) \<Rightarrow>
          (case locations of
             [] \<Rightarrow> (Inl (Errorf ''no definition found''), c1)
           | first # _ \<Rightarrow> (Inr first, c1)))"

text \<open>The extraction loop of \<open>getCodeAtLocation\<close>: \<open>i\<close> runs from the start line to the end
  line, \<open>result\<close> is the string builder.  The test \<open>i < len(lines)\<close> of the source comes first;
  the index expression \<open>lines[i]\<close> then panics when \<open>i\<close> is negative.  The end line has been
  clamped below \<open>len(lines)\<close>, so \<open>i++\<close> does not wrap.\<close>

function extractLines :: "string list \<Rightarrow> int \<Rightarrow> int \<Rightarrow> string \<Rightarrow> string run" where
  "extractLines lines i endLine result =
     (if i \<le> endLine then
        (if i < int (length lines) then
           (case indexAt lines i of
              None \<Rightarrow> Panics (IndexOutOfRange i)
            | Some line \<Rightarrow>
                extractLines lines (i + 1) endLine
                  ((result @ line) @ (if i < endLine then [NL] else [])))
         else extractLines lines (i + 1) endLine result)
      else Returns result)"
  by pat_completeness auto
termination
  by (relation "measure (\<lambda>(lines, i, endLine, result). nat (endLine + 1 - i))") auto

declare extractLines.simps [simp del]

definition getCodeAtLocation :: "files \<Rightarrow> Location \<Rightarrow> (error + string) run" where
  "getCodeAtLocation fs location =
     (let filePath = trimPrefix (URI location) ''file://'' in
      case fs filePath of
        Inl msg \<Rightarrow> Returns (Inl (ReadFileError msg))
      | Inr content \<Rightarrow>
          (let lines = splitLines content;
               startLine = Line (Start (Range' location));
               endLine = Line (End (Range' location))
           in if startLine \<ge> int (length lines)
              then Returns (Inl (Errorf ''start line out of bounds''))
              else
                (let endLine =
                       (if endLine \<ge> int (length lines) then int (length lines) - 1 else endLine)
                 in case extractLines lines startLine endLine [] of
                      Panics p \<Rightarrow> Panics p
                    | Returns text \<Rightarrow> Returns (Inr text))))"

text \<open>The loop of \<open>GetCodeDefinitions\<close> over the requested symbols; \<open>results\<close> is the string
  builder and each \<open>continue\<close> is the recursive call on the remaining symbols.  A panic in
  \<open>getCodeAtLocation\<close> ends the loop and the call.\<close>

fun lookupSymbols ::
  "'c GoplsClient \<Rightarrow> files \<Rightarrow> string \<Rightarrow> string \<Rightarrow> string list \<Rightarrow> string \<Rightarrow> 'c
     \<Rightarrow> (string \<times> 'c) run"
  where
  "lookupSymbols cl fs filePath fileContent [] results c = Returns (results, c)"
| "lookupSymbols cl fs filePath fileContent (symbol # rest) results c =
     (case findSymbolPosition fileContent symbol of
        None \<Rightarrow>
          lookupSymbols cl fs filePath fileContent rest
            (results @ ''Symbol '' @ [SQ] @ symbol @ [SQ] @ '': Not found in file'' @ [NL]) c
      | Some position \<Rightarrow>
          (case getDefinitionAtPosition cl filePath position c of
             (Inl err, c1) \<Rightarrow>
               lookupSymbols cl fs filePath fileContent rest
                 (results @ ''Symbol '' @ [SQ] @ symbol @ [SQ] @ '': Error getting definition - ''
                    @ errorText err @ [NL]) c1
           | (Inr definition, c1) \<Rightarrow>
               (let results1 = results @ ''Symbol '' @ [SQ] @ symbol @ [SQ] @ '':'' @ [NL];
                    results2 = results1 @ ''  Location: '' @ URI definition @ [NL];
                    results3 = results2 @ ''  Line: ''
                       @ showInt (goInt (Line (Start (Range' definition)) + 1))
                       @ '', Character: ''
                       @ showInt (goInt (Character (Start (Range' definition)) + 1)) @ [NL]
                in case getCodeAtLocation fs definition of
                     Panics p \<Rightarrow> Panics p
                   | Returns got \<Rightarrow>
                       (let results4 =
                              (case got of
                                 Inr defContent \<Rightarrow>
                                   (if defContent \<noteq> []
                                    then results3 @ ''  Code:'' @ [NL] @ defContent @ [NL]
                                    else results3)
                               | Inl err \<Rightarrow> results3)
                        in lookupSymbols cl fs filePath fileContent rest (results4 @ [NL]) c1))))"

definition GetCodeDefinitions ::
  "'c GoplsClient \<Rightarrow> files \<Rightarrow> string \<Rightarrow> string list \<Rightarrow> 'c \<Rightarrow> ((error + string) \<times> 'c) run"
  where
  "GetCodeDefinitions cl fs filePath symbols c =
     (case initializeWorkspace cl fs filePath c of
        (Some err, c1) \<Rightarrow> Returns (Inl (Wrapf ''failed to initialize workspace'' err), c1)
      | (None, c1) \<Rightarrow>
          (let results = ''Code Definitions:'' @ [NL, NL] in
           case fs filePath of
             Inl msg \<Rightarrow> Returns (Inl (Wrapf ''failed to read file'' (ReadFileError msg)), c1)
           | Inr fileContent \<Rightarrow>
               (case lookupSymbols cl fs filePath fileContent symbols results c1 of
                  Panics p \<Rightarrow> Panics p
                | Returns (result, c2) \<Rightarrow> Returns (Inr result, c2))))"

section \<open>What the report and the excerpt should be\<close>

text \<open>The lines of a file with index from \<open>startLine\<close> to \<open>endLine\<close> inclusive, and their text
  joined by line feeds: the excerpt as the specification words it.\<close>

definition linesOfRange :: "string list \<Rightarrow> int \<Rightarrow> int \<Rightarrow> string list" where
  "linesOfRange ls startLine endLine =
     take (nat (endLine + 1 - startLine)) (drop (nat startLine) ls)"

fun joinLines :: "string list \<Rightarrow> string" where
  "joinLines [] = []"
| "joinLines [l] = l"
| "joinLines (l # l' # ls) = l @ [NL] @ joinLines (l' # ls)"

text \<open>A text that is one line: it ends with a line feed and holds no other.\<close>

definition isOneLine :: "string \<Rightarrow> bool" where
  "isOneLine text = (text \<noteq> [] \<and> last text = NL \<and> NL \<notin> set (butlast text))"

text \<open>What happens to one requested symbol, and the report entry for it.\<close>

datatype outcome = NotFound | Failed error | Defined Location

fun symbolOutcomes ::
  "'c GoplsClient \<Rightarrow> string \<Rightarrow> string \<Rightarrow> string list \<Rightarrow> 'c \<Rightarrow> outcome list" where
  "symbolOutcomes cl filePath fileContent [] c = []"
| "symbolOutcomes cl filePath fileContent (symbol # rest) c =
     (case findSymbolPosition fileContent symbol of
        None \<Rightarrow> NotFound # symbolOutcomes cl filePath fileContent rest c
      | Some position \<Rightarrow>
          (case GoToDefinition cl (''file://'' @ filePath) (Line position) (Character position) c of
             (Inl err, c1) \<Rightarrow> Failed err # symbolOutcomes cl filePath fileContent rest c1
           | (Inr [], c1) \<Rightarrow>
               Failed (Errorf ''no definition found'') # symbolOutcomes cl filePath fileContent rest c1
           | (Inr (first # _), c1) \<Rightarrow>
               Defined first # symbolOutcomes cl filePath fileContent rest c1))"

definition codeSection :: "files \<Rightarrow> Location \<Rightarrow> string" where
  "codeSection fs location =
     (case getCodeAtLocation fs location of
        Returns (Inr code) \<Rightarrow> (if code \<noteq> [] then ''  Code:'' @ [NL] @ code @ [NL] else [])
      | Returns (Inl err) \<Rightarrow> []
      | Panics p \<Rightarrow> [])"

fun reportEntry :: "files \<Rightarrow> string \<Rightarrow> outcome \<Rightarrow> string" where
  "reportEntry fs symbol NotFound =
     ''Symbol '' @ [SQ] @ symbol @ [SQ] @ '': Not found in file'' @ [NL]"
| "reportEntry fs symbol (Failed err) =
     ''Symbol '' @ [SQ] @ symbol @ [SQ] @ '': Error getting definition - '' @ errorText err @ [NL]"
| "reportEntry fs symbol (Defined location) =
     ''Symbol '' @ [SQ] @ symbol @ [SQ] @ '':'' @ [NL]
     @ ''  Location: '' @ URI location @ [NL]
     @ ''  Line: '' @ showInt (goInt (Line (Start (Range' location)) + 1))
     @ '', Character: '' @ showInt (goInt (Character (Start (Range' location)) + 1)) @ [NL]
     @ codeSection fs location @ [NL]"

section \<open>A client that records its calls\<close>

text \<open>An instance of the client parameter whose state is the list of calls made so far; the
  answers to definition requests are a parameter.  \<open>alwaysAnswer\<close> gives the same list of
  locations to every request.\<close>

definition alwaysAnswer :: "Location list \<Rightarrow> string \<Rightarrow> int \<Rightarrow> int \<Rightarrow> error + Location list" where
  "alwaysAnswer locations uri line character = Inr locations"

datatype call =
    CallInitialize
  | CallDidOpen string string string
  | CallGoToDefinition string int int

definition recorder ::
  "(string \<Rightarrow> int \<Rightarrow> int \<Rightarrow> error + Location list) \<Rightarrow> call list GoplsClient" where
  "recorder answer =
     \<lparr>initialized = (\<lambda>log. CallInitialize \<in> set log),
      Initialize = (\<lambda>log. (None, log @ [CallInitialize])),
      DidOpen = (\<lambda>uri languageId content log. (None, log @ [CallDidOpen uri languageId content])),
      GoToDefinition = (\<lambda>uri line character log.
         (answer uri line character, log @ [CallGoToDefinition uri line character]))\<rparr>"

section \<open>The session state machine\<close>

text \<open>Modelled from the spec: the session (the type \<open>GoplsClient\<close> with its methods
  \<open>Initialize\<close>, \<open>DidOpen\<close> and \<open>GoToDefinition\<close>) is not among the sources.  The spec gives five
  states, request identifiers counting up from 1, and these transitions: \<open>Initialize\<close> on an
  uninitialized session sends an \<open>initialize\<close> request; on a successful response the session
  sends the \<open>initialized\<close> notification and is ready, on an error response it is closed and
  the call fails with \<open>HandshakeError\<close>; \<open>Initialize\<close> on a ready session fails with
  \<open>AlreadyInitializedError\<close>; the other operations fail with \<open>NotReadyError\<close> before the
  session is ready and every operation fails with \<open>ClosedError\<close> once it is closed; a caller's
  misuse leaves the state as it was.  The spec does not say what \<open>Initialize\<close> does while a
  handshake is under way or the session is closing; here the first counts as already
  initialized and the second as closed.  The subprocess is a black box: whether it accepts
  the handshake, whether the pipe is broken, and its answer to each definition request.\<close>

datatype SessionState = Uninitialized | Initializing | Ready | Closing | Closed

datatype params =
    NoParams
  | DidOpenParams string string string
  | DefinitionParams string int int

datatype message =
    Request nat string params
  | Notification string params

record session =
  state :: SessionState
  nextId :: nat
  written :: "message list"

record subprocess =
  acceptsInitialize :: bool
  pipeBroken :: bool
  definitionAnswer :: "string \<Rightarrow> int \<Rightarrow> int \<Rightarrow> error + Location list"

text \<open>Modelled from the spec: a session is created uninitialized, and the first request
  identifier is 1.\<close>

definition newSession :: session where
  "newSession = \<lparr>state = Uninitialized, nextId = 1, written = []\<rparr>"

text \<open>Modelled from the spec: a request takes the next identifier and is written to the
  subprocess; a notification is written without an identifier.\<close>

definition sendRequest :: "string \<Rightarrow> params \<Rightarrow> session \<Rightarrow> session" where
  "sendRequest method ps s =
     s\<lparr>written := written s @ [Request (nextId s) method ps], nextId := Suc (nextId s)\<rparr>"

definition notify :: "string \<Rightarrow> params \<Rightarrow> session \<Rightarrow> session" where
  "notify method ps s = s\<lparr>written := written s @ [Notification method ps]\<rparr>"

text \<open>Modelled from the spec: the operation \<open>Initialize\<close> of the session, which is not among
  the sources.\<close>

definition sessionInitialize :: "subprocess \<Rightarrow> session \<Rightarrow> error option \<times> session" where
  "sessionInitialize sub s =
     (case state s of
        Uninitialized \<Rightarrow>
          (let s1 = sendRequest ''initialize'' NoParams (s\<lparr>state := Initializing\<rparr>) in
           if acceptsInitialize sub
           then (None, (notify ''initialized'' NoParams s1)\<lparr>state := Ready\<rparr>)
           else (Some HandshakeError, s1\<lparr>state := Closed\<rparr>))
      | Initializing \<Rightarrow> (Some AlreadyInitializedError, s)
      | Ready \<Rightarrow> (Some AlreadyInitializedError, s)
      | Closing \<Rightarrow> (Some ClosedError, s)
      | Closed \<Rightarrow> (Some ClosedError, s))"

text \<open>Modelled from the spec: the operations \<open>DidOpen\<close> and \<open>Definition\<close> of the session, which
  are not among the sources.\<close>

definition sessionDidOpen ::
  "subprocess \<Rightarrow> string \<Rightarrow> string \<Rightarrow> string \<Rightarrow> session \<Rightarrow> error option \<times> session" where
  "sessionDidOpen sub uri languageId content s =
     (case state s of
        Ready \<Rightarrow>
          (if pipeBroken sub then (Some (TransportError ''broken pipe''), s)
           else (None, notify ''textDocument/didOpen'' (DidOpenParams uri languageId content) s))
      | Uninitialized \<Rightarrow> (Some NotReadyError, s)
      | Initializing \<Rightarrow> (Some NotReadyError, s)
      | Closing \<Rightarrow> (Some ClosedError, s)
      | Closed \<Rightarrow> (Some ClosedError, s))"

definition sessionDefinition ::
  "subprocess \<Rightarrow> string \<Rightarrow> int \<Rightarrow> int \<Rightarrow> session \<Rightarrow> (error + Location list) \<times> session" where
  "sessionDefinition sub uri line character s =
     (case state s of
        Ready \<Rightarrow>
          (if pipeBroken sub then (Inl (TransportError ''broken pipe''), s)
           else (definitionAnswer sub uri line character,
                 sendRequest ''textDocument/definition'' (DefinitionParams uri line character) s))
      | Uninitialized \<Rightarrow> (Inl NotReadyError, s)
      | Initializing \<Rightarrow> (Inl NotReadyError, s)
      | Closing \<Rightarrow> (Inl ClosedError, s)
      | Closed \<Rightarrow> (Inl ClosedError, s))"

text \<open>Modelled from the spec: the session as the client of the tool.  The flag
  \<open>initialized\<close> that \<open>initializeWorkspace\<close> reads is the state \<open>Ready\<close>.\<close>

definition sessionClient :: "subprocess \<Rightarrow> session GoplsClient" where
  "sessionClient sub =
     \<lparr>initialized = (\<lambda>s. state s = Ready),
      Initialize = sessionInitialize sub,
      DidOpen = sessionDidOpen sub,
      GoToDefinition = sessionDefinition sub\<rparr>"

section \<open>Facts about the string primitives\<close>

lemma strIndex_Nil [simp]: "strIndex [] sub = (if sub = [] then Some 0 else None)"
  by (simp add: strIndex.simps)

lemma strIndex_Cons:
  "strIndex (c # t) sub =
     (if prefix sub (c # t) then Some 0 else map_option Suc (strIndex t sub))"
  by (simp add: strIndex.simps [of "c # t"])

text \<open>\<open>strIndex\<close> finds an occurrence exactly when there is one, and the index it returns is
  that of the first occurrence.\<close>

lemma strIndex_sublist: "strIndex s sub \<noteq> None \<longleftrightarrow> sublist sub s"
proof (induction s)
  case Nil
  show ?case by simp
next
  case (Cons c t)
  show ?case
  proof (cases "prefix sub (c # t)")
    case True
    then show ?thesis by (auto simp: strIndex_Cons intro: prefix_imp_sublist)
  next
    case False
    then show ?thesis using Cons by (simp add: strIndex_Cons sublist_Cons_right)
  qed
qed

lemma strIndex_Some_prefix:
  "strIndex s sub = Some i \<Longrightarrow> i \<le> length s \<and> prefix sub (drop i s)"
proof (induction s arbitrary: i)
  case Nil
  then show ?case by (simp split: if_splits)
next
  case (Cons c t)
  then show ?case by (auto simp: strIndex_Cons split: if_splits)
qed

lemma strIndex_Some_least:
  "strIndex s sub = Some i \<Longrightarrow> j < i \<Longrightarrow> \<not> prefix sub (drop j s)"
proof (induction s arbitrary: i j)
  case Nil
  then show ?case by (simp split: if_splits)
next
  case (Cons c t)
  then show ?case by (cases j) (auto simp: strIndex_Cons split: if_splits)
qed

lemma strContains_sublist: "strContains s sub \<longleftrightarrow> sublist sub s"
  unfolding strContains_def by (rule strIndex_sublist)

text \<open>The lines of a content: the first line is the text before the first line feed, a
  text without a line feed occurs in the content exactly when it occurs in one of the lines,
  and joining the lines gives the content back.\<close>

lemma splitLines_nonempty [simp]: "splitLines s \<noteq> []"
  by (induction s) (auto split: list.splits)

lemma splitLines_first:
  "splitLines cs = l # ls \<Longrightarrow>
   NL \<notin> set l \<and> (cs = l \<or> (\<exists>rest. cs = l @ NL # rest))"
proof (induction cs arbitrary: l ls)
  case Nil
  then show ?case by simp
next
  case (Cons c cs)
  show ?case
  proof (cases "c = NL")
    case True
    then show ?thesis using Cons.prems by auto
  next
    case False
    obtain l' ls' where sp: "splitLines cs = l' # ls'" by (cases "splitLines cs") auto
    from Cons.IH[OF sp] have "NL \<notin> set l'" and "cs = l' \<or> (\<exists>rest. cs = l' @ NL # rest)" by simp_all
    moreover have "l = c # l'" using Cons.prems sp False by simp
    ultimately show ?thesis using False by auto
  qed
qed

lemma prefix_before_separator:
  assumes "prefix xs (ys @ z # zs)" "z \<notin> set xs"
  shows "prefix xs ys"
proof -
  from assms(1) consider "prefix xs ys" | us where "xs = ys @ us" "prefix us (z # zs)"
    by (auto simp: prefix_append)
  then show ?thesis
  proof cases
    case 1 then show ?thesis .
  next
    case 2
    then have "us = []" using assms(2) by (cases us) auto
    then show ?thesis using 2 by simp
  qed
qed

lemma splitLines_sublist:
  assumes "NL \<notin> set symbol"
  shows "sublist symbol content \<longleftrightarrow> (\<exists>l \<in> set (splitLines content). sublist symbol l)"
proof (induction content)
  case Nil
  show ?case by simp
next
  case (Cons c cs)
  obtain l ls where sp: "splitLines cs = l # ls" by (cases "splitLines cs") auto
  show ?case
  proof (cases "c = NL")
    case True
    have "\<not> prefix symbol (c # cs) \<or> symbol = []"
      using assms True by (cases symbol) auto
    then show ?thesis using Cons True by (auto simp: sublist_Cons_right)
  next
    case False
    from splitLines_first[OF sp] have l: "cs = l \<or> (\<exists>rest. cs = l @ NL # rest)" by simp
    have pre: "prefix symbol (c # cs) \<longleftrightarrow> prefix symbol (c # l)"
    proof
      assume p: "prefix symbol (c # cs)"
      from l show "prefix symbol (c # l)"
      proof
        assume "cs = l" then show ?thesis using p by simp
      next
        assume "\<exists>rest. cs = l @ NL # rest"
        then obtain rest where "cs = l @ NL # rest" ..
        then have "prefix symbol ((c # l) @ NL # rest)" using p by simp
        then show ?thesis using assms by (rule prefix_before_separator)
      qed
    next
      assume p: "prefix symbol (c # l)"
      have "prefix (c # l) (c # cs)" using l by auto
      with p show "prefix symbol (c # cs)" by (rule prefix_order.order_trans)
    qed
    have "splitLines (c # cs) = (c # l) # ls" using sp False by simp
    then show ?thesis using Cons pre sp by (auto simp: sublist_Cons_right)
  qed
qed

lemma joinLines_Cons: "joinLines (l # ls) = l @ (if ls = [] then [] else NL # joinLines ls)"
  by (cases ls) simp_all

lemma joinLines_splitLines: "joinLines (splitLines content) = content"
proof (induction content)
  case Nil
  show ?case by simp
next
  case (Cons c cs)
  obtain l ls where sp: "splitLines cs = l # ls" by (cases "splitLines cs") auto
  show ?case
  proof (cases "c = NL")
    case True
    then show ?thesis using Cons by (simp add: joinLines_Cons)
  next
    case False
    then show ?thesis using Cons sp by (simp add: joinLines_Cons)
  qed
qed

section \<open>Facts about the symbol locator\<close>

text \<open>Every pattern contains the symbol, so a line on which a pattern occurs contains the
  symbol too, and the scan passes over exactly the lines that do not contain it.\<close>

lemma sublist_pattern: "p \<in> set (patterns symbol) \<Longrightarrow> sublist symbol p"
  by (auto simp: patterns_def sublist_Cons_right sublist_append_rightI)

lemma firstPatternIdx_Some:
  "firstPatternIdx line ps = Some idx \<Longrightarrow> \<exists>p \<in> set ps. strIndex line p = Some idx"
  by (induction ps) (auto split: option.splits)

lemma firstPatternIdx_None:
  "firstPatternIdx line ps = None \<longleftrightarrow> (\<forall>p \<in> set ps. strIndex line p = None)"
  by (induction ps) (auto split: option.splits)

lemma firstPatternIdx_contains:
  assumes "firstPatternIdx line (patterns symbol) = Some idx"
  shows "strContains line symbol"
proof -
  from assms obtain p where p: "p \<in> set (patterns symbol)" "strIndex line p = Some idx"
    by (auto dest: firstPatternIdx_Some)
  then have "sublist p line" using strIndex_sublist [of line p] by simp
  moreover have "sublist symbol p" using p(1) by (rule sublist_pattern)
  ultimately have "sublist symbol line" by (rule sublist_order.order_trans[rotated])
  then show ?thesis by (simp add: strContains_sublist)
qed

lemma firstPatternIdx_priority:
  "k < length ps \<Longrightarrow> strIndex line (ps ! k) = Some idx \<Longrightarrow>
   \<forall>m<k. strIndex line (ps ! m) = None \<Longrightarrow> firstPatternIdx line ps = Some idx"
proof (induction ps arbitrary: k)
  case Nil then show ?case by simp
next
  case (Cons p ps)
  show ?case
  proof (cases k)
    case 0 then show ?thesis using Cons.prems by simp
  next
    case (Suc k')
    have "strIndex line p = None" using Cons.prems(3) Suc by auto
    moreover have "\<forall>m<k'. strIndex line (ps ! m) = None"
    proof (intro allI impI)
      fix m assume "m < k'"
      then have "Suc m < k" using Suc by simp
      then show "strIndex line (ps ! m) = None" using Cons.prems(3) by fastforce
    qed
    then have "firstPatternIdx line ps = Some idx"
      using Cons.IH[of k'] Cons.prems(1,2) Suc by simp
    ultimately show ?thesis by simp
  qed
qed

lemma scanLines_skip:
  "\<forall>l \<in> set pre. \<not> strContains l symbol \<Longrightarrow>
   scanLines symbol n (pre @ ls) = scanLines symbol (n + length pre) ls"
proof (induction pre arbitrary: n)
  case Nil then show ?case by simp
next
  case (Cons l pre)
  have nc: "\<not> strContains l symbol" using Cons.prems by simp
  have "firstPatternIdx l (patterns symbol) = None"
    using nc firstPatternIdx_contains by (cases "firstPatternIdx l (patterns symbol)") auto
  moreover have "strIndex l symbol = None" using nc by (simp add: strContains_def)
  ultimately show ?case using Cons by simp
qed

lemma scanLines_None:
  "scanLines symbol n ls = None \<longleftrightarrow> (\<forall>l \<in> set ls. \<not> strContains l symbol)"
proof (induction ls arbitrary: n)
  case Nil then show ?case by simp
next
  case (Cons l ls)
  show ?case
  proof (cases "strContains l symbol")
    case True
    then show ?thesis by (auto simp: strContains_def split: option.splits)
  next
    case False
    have "firstPatternIdx l (patterns symbol) = None"
      using False firstPatternIdx_contains by (cases "firstPatternIdx l (patterns symbol)") auto
    then show ?thesis using False Cons by (simp add: strContains_def)
  qed
qed

lemma scanLines_at_first:
  assumes "i < length ls" "strContains (ls ! i) symbol"
    and "\<forall>j<i. \<not> strContains (ls ! j) symbol"
  shows "scanLines symbol n ls =
     (case firstPatternIdx (ls ! i) (patterns symbol) of
        Some idx \<Rightarrow> Some \<lparr>Line = int (n + i), Character = int idx\<rparr>
      | None \<Rightarrow> map_option (\<lambda>idx. \<lparr>Line = int (n + i), Character = int idx\<rparr>)
                  (strIndex (ls ! i) symbol))"
proof -
  have split: "ls = take i ls @ (ls ! i) # drop (Suc i) ls"
    using assms(1) by (simp add: id_take_nth_drop)
  have "\<forall>l \<in> set (take i ls). \<not> strContains l symbol"
    using assms(1,3) by (auto simp: in_set_conv_nth)
  then have "scanLines symbol n (take i ls @ (ls ! i) # drop (Suc i) ls) =
             scanLines symbol (n + length (take i ls)) ((ls ! i) # drop (Suc i) ls)"
    by (rule scanLines_skip)
  moreover have "length (take i ls) = i" using assms(1) by simp
  ultimately have "scanLines symbol n ls = scanLines symbol (n + i) ((ls ! i) # drop (Suc i) ls)"
    using split by metis
  moreover obtain idx where "strIndex (ls ! i) symbol = Some idx"
    using assms(2) by (auto simp: strContains_def)
  ultimately show ?thesis by (simp split: option.splits)
qed

section \<open>Facts about the excerpt\<close>

text \<open>The extraction loop: it returns at once when the start is beyond the end, it panics on
  a negative index, and from an index that is not negative it returns the joined lines.\<close>

lemma extractLines_done: "endLine < i \<Longrightarrow> extractLines ls i endLine acc = Returns acc"
  by (simp add: extractLines.simps [of ls i])

lemma extractLines_negative:
  "i < 0 \<Longrightarrow> i \<le> endLine \<Longrightarrow> extractLines ls i endLine acc = Panics (IndexOutOfRange i)"
  by (simp add: extractLines.simps [of ls i] indexAt_def)

lemma extractLines_join:
  "0 \<le> i \<Longrightarrow> endLine < int (length ls) \<Longrightarrow>
   extractLines ls i endLine acc =
   Returns (acc @ joinLines (take (nat (endLine + 1 - i)) (drop (nat i) ls)))"
proof (induction ls i endLine acc rule: extractLines.induct)
  case (1 ls i endLine acc)
  show ?case
  proof (cases "i \<le> endLine")
    case False
    then show ?thesis by (simp add: extractLines.simps [of ls i])
  next
    case True
    then have i: "nat i < length ls" "i < int (length ls)" using "1.prems" by auto
    have ix: "indexAt ls i = Some (ls ! nat i)" using i "1.prems" by (simp add: indexAt_def)
    have n: "nat (endLine + 1 - i) = Suc (nat (endLine + 1 - (i + 1)))"
      using True by simp
    have d: "drop (nat i) ls = ls ! nat i # drop (nat (i + 1)) ls"
      using i "1.prems"(1) by (simp add: Cons_nth_drop_Suc nat_add_distrib)
    have step: "take (nat (endLine + 1 - i)) (drop (nat i) ls) =
                ls ! nat i # take (nat (endLine + 1 - (i + 1))) (drop (nat (i + 1)) ls)"
      unfolding n d by simp
    have empty: "take (nat (endLine + 1 - (i + 1))) (drop (nat (i + 1)) ls) = [] \<longleftrightarrow> \<not> i < endLine"
      using True "1.prems" by auto
    have "extractLines ls i endLine acc =
          extractLines ls (i + 1) endLine ((acc @ ls ! nat i) @ (if i < endLine then [NL] else []))"
      using True i ix by (simp add: extractLines.simps [of ls i])
    also have "\<dots> = Returns (((acc @ ls ! nat i) @ (if i < endLine then [NL] else [])) @
                    joinLines (take (nat (endLine + 1 - (i + 1))) (drop (nat (i + 1)) ls)))"
      using "1.IH"(1) [OF True i(2) ix] "1.prems" by simp
    also have "\<dots> = Returns (acc @ joinLines (take (nat (endLine + 1 - i)) (drop (nat i) ls)))"
      unfolding step joinLines_Cons using empty by auto
    finally show ?thesis .
  qed
qed

text \<open>\<open>getCodeAtLocation\<close> in full: an unreadable target, a start line beyond the file, a
  negative start line that is read (the panic), and the excerpt.\<close>

lemma getCodeAtLocation_unreadable:
  "fs (trimPrefix (URI location) ''file://'') = Inl msg \<Longrightarrow>
   getCodeAtLocation fs location = Returns (Inl (ReadFileError msg))"
  by (simp add: getCodeAtLocation_def)

lemma getCodeAtLocation_readable:
  assumes "fs (trimPrefix (URI location) ''file://'') = Inr content"
  shows "getCodeAtLocation fs location =
     (if int (length (splitLines content)) \<le> Line (Start (Range' location))
      then Returns (Inl (Errorf ''start line out of bounds''))
      else if Line (Start (Range' location)) < 0 \<and>
              Line (Start (Range' location)) \<le> Line (End (Range' location))
      then Panics (IndexOutOfRange (Line (Start (Range' location))))
      else Returns (Inr (joinLines (linesOfRange (splitLines content)
                  (Line (Start (Range' location))) (Line (End (Range' location)))))))"
proof -
  let ?ls = "splitLines content"
  let ?s = "Line (Start (Range' location))"
  let ?e = "Line (End (Range' location))"
  let ?e' = "if ?e \<ge> int (length ?ls) then int (length ?ls) - 1 else ?e"
  have len: "0 < length ?ls" by simp
  consider (out) "int (length ?ls) \<le> ?s"
    | (neg) "?s < int (length ?ls)" "?s < 0" "?s \<le> ?e"
    | (none) "?s < int (length ?ls)" "?s < 0" "?e < ?s"
    | (ok) "?s < int (length ?ls)" "0 \<le> ?s"
    by linarith
  then show ?thesis
  proof cases
    case out
    then show ?thesis using assms by (simp add: getCodeAtLocation_def)
  next
    case neg
    then have "?s \<le> ?e'" using len by auto
    with neg(2) have "extractLines ?ls ?s ?e' [] = Panics (IndexOutOfRange ?s)"
      by (rule extractLines_negative)
    then show ?thesis using assms neg by (simp add: getCodeAtLocation_def Let_def)
  next
    case none
    then have "?e' < ?s" by auto
    then have "extractLines ?ls ?s ?e' [] = Returns []" by (rule extractLines_done)
    moreover have "linesOfRange ?ls ?s ?e = []" using none by (simp add: linesOfRange_def)
    ultimately show ?thesis using assms none by (simp add: getCodeAtLocation_def Let_def)
  next
    case ok
    have "?e' < int (length ?ls)" using len by auto
    with ok(2) have "extractLines ?ls ?s ?e' [] =
        Returns ([] @ joinLines (take (nat (?e' + 1 - ?s)) (drop (nat ?s) ?ls)))"
      by (rule extractLines_join)
    moreover have "linesOfRange ?ls ?s ?e = take (nat (?e' + 1 - ?s)) (drop (nat ?s) ?ls)"
      using ok by (auto simp: linesOfRange_def)
    ultimately show ?thesis using assms ok by (simp add: getCodeAtLocation_def Let_def)
  qed
qed

lemma getCodeAtLocation_returns:
  assumes "0 \<le> Line (Start (Range' location))"
  shows "\<exists>got. getCodeAtLocation fs location = Returns got"
proof (cases "fs (trimPrefix (URI location) ''file://'')")
  case (Inl msg)
  then show ?thesis by (simp add: getCodeAtLocation_unreadable)
next
  case (Inr content)
  then show ?thesis using assms by (simp add: getCodeAtLocation_readable)
qed


lemma take_drop_nth:
  assumes "n \<le> length ls"
  shows "take (n - a) (drop a ls) = map (\<lambda>i. ls ! i) [a ..< n]"
proof (rule nth_equalityI)
  show "length (take (n - a) (drop a ls)) = length (map (\<lambda>i. ls ! i) [a ..< n])"
    using assms by simp
next
  fix i assume "i < length (take (n - a) (drop a ls))"
  then have "i < n - a" by simp
  then show "take (n - a) (drop a ls) ! i = map (\<lambda>i. ls ! i) [a ..< n] ! i"
    using assms by simp
qed

lemma linesOfRange_nth:
  assumes "0 \<le> startLine" "startLine < int (length ls)"
  shows "linesOfRange ls startLine endLine =
         map (\<lambda>i. ls ! i) [nat startLine ..< nat (min endLine (int (length ls) - 1) + 1)]"
proof -
  let ?n = "nat (min endLine (int (length ls) - 1) + 1)"
  have n: "?n \<le> length ls" by auto
  have d: "nat (x - startLine) = nat x - nat startLine" for x
    using assms(1) by arith
  have "nat (endLine + 1 - startLine) = ?n - nat startLine \<or>
        (length ls - nat startLine \<le> nat (endLine + 1 - startLine) \<and>
         length ls - nat startLine \<le> ?n - nat startLine)"
    using assms d [of "endLine + 1"] by (auto simp: min_def)
  then have "linesOfRange ls startLine endLine = take (?n - nat startLine) (drop (nat startLine) ls)"
    unfolding linesOfRange_def by (elim disjE) simp_all
  also have "\<dots> = map (\<lambda>i. ls ! i) [nat startLine ..< ?n]"
    using n by (rule take_drop_nth)
  finally show ?thesis .
qed

section \<open>Facts about the report\<close>

text \<open>One round of the loop on a symbol whose definition was found, and the whole loop when no
  definition used has a negative start line: the builder grows by one entry for each symbol.\<close>

lemma lookupSymbols_step_defined:
  assumes "findSymbolPosition fileContent symbol = Some position"
    and "GoToDefinition cl (''file://'' @ filePath) (Line position) (Character position) c
           = (Inr (first # others), c1)"
  shows "lookupSymbols cl fs filePath fileContent (symbol # rest) results c =
         (case getCodeAtLocation fs first of
            Panics p \<Rightarrow> Panics p
          | Returns got \<Rightarrow>
              lookupSymbols cl fs filePath fileContent rest
                (results @ reportEntry fs symbol (Defined first)) c1)"
  using assms
  by (simp add: getDefinitionAtPosition_def codeSection_def Let_def split: sum.splits run.splits)

lemma lookupSymbols_report:
  assumes "\<forall>loc. Defined loc \<in> set (symbolOutcomes cl filePath fileContent symbols c) \<longrightarrow>
             0 \<le> Line (Start (Range' loc))"
  shows "\<exists>c'. lookupSymbols cl fs filePath fileContent symbols results c =
           Returns (results @ concat (map2 (reportEntry fs) symbols
                       (symbolOutcomes cl filePath fileContent symbols c)), c')"
  using assms
proof (induction symbols arbitrary: results c)
  case Nil
  show ?case by simp
next
  case (Cons symbol rest)
  show ?case
  proof (cases "findSymbolPosition fileContent symbol")
    case None
    have "\<forall>loc. Defined loc \<in> set (symbolOutcomes cl filePath fileContent rest c) \<longrightarrow>
             0 \<le> Line (Start (Range' loc))"
      using Cons.prems None by simp
    from Cons.IH [OF this, of "results @ reportEntry fs symbol NotFound"]
    show ?thesis using None by simp
  next
    case (Some position)
    obtain r c1 where g:
      "GoToDefinition cl (''file://'' @ filePath) (Line position) (Character position) c = (r, c1)"
      by (cases "GoToDefinition cl (''file://'' @ filePath) (Line position) (Character position) c")
    show ?thesis
    proof (cases r)
      case (Inl err)
      have "\<forall>loc. Defined loc \<in> set (symbolOutcomes cl filePath fileContent rest c1) \<longrightarrow>
             0 \<le> Line (Start (Range' loc))"
        using Cons.prems Some g Inl by simp
      from Cons.IH [OF this, of "results @ reportEntry fs symbol (Failed err)"]
      show ?thesis
        using Some g Inl by (simp add: getDefinitionAtPosition_def)
    next
      case (Inr locations)
      show ?thesis
      proof (cases locations)
        case Nil
        have "\<forall>loc. Defined loc \<in> set (symbolOutcomes cl filePath fileContent rest c1) \<longrightarrow>
             0 \<le> Line (Start (Range' loc))"
          using Cons.prems Some g Inr Nil by simp
        from Cons.IH [OF this,
            of "results @ reportEntry fs symbol (Failed (Errorf ''no definition found''))"]
        show ?thesis
          using Some g Inr Nil by (simp add: getDefinitionAtPosition_def)
      next
        case (Cons first others)
        then have g': "GoToDefinition cl (''file://'' @ filePath) (Line position) (Character position) c
           = (Inr (first # others), c1)" using g Inr by simp
        have out: "symbolOutcomes cl filePath fileContent (symbol # rest) c =
                   Defined first # symbolOutcomes cl filePath fileContent rest c1"
          using Some g' by simp
        have "0 \<le> Line (Start (Range' first))" using Cons.prems out by simp
        then obtain got where got: "getCodeAtLocation fs first = Returns got"
          using getCodeAtLocation_returns by blast
        have rest: "\<forall>loc. Defined loc \<in> set (symbolOutcomes cl filePath fileContent rest c1) \<longrightarrow>
             0 \<le> Line (Start (Range' loc))"
          using Cons.prems out by simp
        from Cons.IH [OF rest, of "results @ reportEntry fs symbol (Defined first)"]
        show ?thesis
          unfolding lookupSymbols_step_defined [OF Some g'] out using got by simp
      qed
    qed
  qed
qed

lemma symbolOutcomes_length:
  "length (symbolOutcomes cl filePath fileContent symbols c) = length symbols"
  by (induction symbols arbitrary: c) (auto split: option.splits prod.splits sum.splits list.splits)

lemma symbolOutcomes_NotFound:
  "i < length symbols \<Longrightarrow>
   (symbolOutcomes cl filePath fileContent symbols c ! i = NotFound) =
   (findSymbolPosition fileContent (symbols ! i) = None)"
proof (induction symbols arbitrary: c i)
  case Nil then show ?case by simp
next
  case (Cons s rest)
  show ?case
  proof (cases i)
    case 0
    then show ?thesis by (auto split: option.splits prod.splits sum.splits list.splits)
  next
    case (Suc j)
    then show ?thesis using Cons.IH [of j] Cons.prems
      by (auto split: option.splits prod.splits sum.splits list.splits)
  qed
qed

lemma reportEntry_prefix: "prefix (''Symbol '' @ [SQ] @ symbol @ [SQ]) (reportEntry fs symbol out)"
  by (cases out) simp_all

lemma isOneLine_snoc: "isOneLine (text @ [NL]) \<longleftrightarrow> NL \<notin> set text"
  by (simp add: isOneLine_def)

lemma reportEntry_NotFound_oneLine:
  "isOneLine (reportEntry fs symbol NotFound) \<longleftrightarrow> NL \<notin> set symbol"
proof -
  have e: "reportEntry fs symbol NotFound =
        (''Symbol '' @ [SQ] @ symbol @ [SQ] @ '': Not found in file'') @ [NL]" by simp
  show ?thesis unfolding e isOneLine_snoc by (auto simp: NL_def SQ_def)
qed

lemma reportEntry_Failed_oneLine:
  "isOneLine (reportEntry fs symbol (Failed err)) \<longleftrightarrow>
   NL \<notin> set symbol \<and> NL \<notin> set (errorText err)"
proof -
  have e: "reportEntry fs symbol (Failed err) =
        (''Symbol '' @ [SQ] @ symbol @ [SQ] @ '': Error getting definition - '' @ errorText err)
        @ [NL]" by simp
  show ?thesis unfolding e isOneLine_snoc by (auto simp: NL_def SQ_def)
qed

text \<open>The decimal text printed for a number denotes that number, and a Go \<open>int\<close> does not wrap
  when the result is one.\<close>

lemma goInt_id: "isGoInt x \<Longrightarrow> goInt x = x"
  by (simp add: goInt_def isGoInt_def)

lemma digitValue_digitChar: "d < 10 \<Longrightarrow> digitValue (digitChar d) = d"
proof -
  assume "d < 10"
  then have "d = 0 \<or> d = 1 \<or> d = 2 \<or> d = 3 \<or> d = 4 \<or> d = 5 \<or> d = 6 \<or> d = 7 \<or> d = 8 \<or> d = 9"
    by arith
  then show ?thesis by (elim disjE) (simp_all add: digitValue_def digitChar_def)
qed

lemma decimalValue_snoc: "decimalValue (text @ [ch]) = 10 * decimalValue text + digitValue ch"
  by (simp add: decimalValue_def)

lemma decimalValue_showNat: "decimalValue (showNat n) = n"
proof (induction n rule: showNat.induct)
  case (1 n)
  show ?case
  proof (cases "n < 10")
    case True
    then show ?thesis
      by (simp add: showNat.simps [of n] decimalValue_def digitValue_digitChar)
  next
    case False
    then show ?thesis
      using 1 by (simp add: showNat.simps [of n] decimalValue_snoc digitValue_digitChar)
  qed
qed

lemma digitChar_not_minus: "d < 10 \<Longrightarrow> digitChar d \<noteq> CHR ''-''"
proof -
  assume "d < 10"
  then have "d = 0 \<or> d = 1 \<or> d = 2 \<or> d = 3 \<or> d = 4 \<or> d = 5 \<or> d = 6 \<or> d = 7 \<or> d = 8 \<or> d = 9"
    by arith
  then show ?thesis by (elim disjE) (simp_all add: digitChar_def)
qed

lemma showNat_head: "\<exists>d ds. showNat n = d # ds \<and> d \<noteq> CHR ''-''"
proof (induction n rule: showNat.induct)
  case (1 n)
  show ?case
  proof (cases "n < 10")
    case True
    then show ?thesis by (simp add: showNat.simps [of n] digitChar_not_minus)
  next
    case False
    then obtain d ds where "showNat (n div 10) = d # ds" "d \<noteq> CHR ''-''" using 1 by blast
    then show ?thesis using False by (simp add: showNat.simps [of n])
  qed
qed

lemma signedValue_showInt: "signedValue (showInt x) = x"
proof (cases "x < 0")
  case True
  then show ?thesis by (simp add: signedValue_def showInt_def decimalValue_showNat)
next
  case False
  obtain d ds where "showNat (nat x) = d # ds" "d \<noteq> CHR ''-''" using showNat_head by blast
  then show ?thesis
    using False decimalValue_showNat [of "nat x"] by (simp add: signedValue_def showInt_def)
qed

section \<open>The symbol locator on a function declaration\<close>

text \<open>C1. On the content \<open>func Foo() {}\<close> followed by a line feed, with the symbol \<open>Foo\<close>, the
  locator returns line 0 and character 0: the index at which the matched pattern
  \<open>func Foo(\<close> starts, which is the keyword, and not character 5 where the symbol stands.\<close>

theorem findSymbolPosition_func_Foo:
  "findSymbolPosition (''func Foo() {}'' @ [NL]) ''Foo'' = Some \<lparr>Line = 0, Character = 0\<rparr>"
  by (simp add: findSymbolPosition_def patterns_def NL_def strIndex_Cons)

section \<open>Priority of the patterns within a line\<close>

text \<open>C5. The patterns are tried in the order function declaration, method receiver, type,
  variable, constant, short assignment, plain assignment.  On the first line that contains the
  symbol, if the pattern number \<open>k\<close> occurs at index \<open>idx\<close> and no pattern before it in the list
  occurs on that line, the locator returns that line with the character \<open>idx\<close>, wherever the
  later patterns occur on the line.\<close>

theorem findSymbolPosition_pattern_priority:
  assumes "i < length (splitLines content)"
    and "\<forall>j<i. \<not> strContains (splitLines content ! j) symbol"
    and "k < length (patterns symbol)"
    and "strIndex (splitLines content ! i) (patterns symbol ! k) = Some idx"
    and "\<forall>m<k. strIndex (splitLines content ! i) (patterns symbol ! m) = None"
  shows "patterns symbol =
           [''func '' @ symbol @ ''('', ''func ('' @ symbol @ '')'', ''type '' @ symbol @ '' '',
            ''var '' @ symbol @ '' '', ''const '' @ symbol @ '' '', symbol @ '' :='',
            symbol @ '' =''] \<and>
         findSymbolPosition content symbol = Some \<lparr>Line = int i, Character = int idx\<rparr>"
proof -
  have fp: "firstPatternIdx (splitLines content ! i) (patterns symbol) = Some idx"
    using assms(3,4,5) by (rule firstPatternIdx_priority)
  then have "strContains (splitLines content ! i) symbol" by (rule firstPatternIdx_contains)
  from scanLines_at_first [OF assms(1) this assms(2), of 0] fp
  have "findSymbolPosition content symbol = Some \<lparr>Line = int i, Character = int idx\<rparr>"
    by (simp add: findSymbolPosition_def)
  then show ?thesis by (simp add: patterns_def)
qed

text \<open>On the line \<open>x = f; func x() {}\<close> the plain assignment occurs at index 0 and the function
  declaration at index 7; the locator returns character 7.\<close>

theorem findSymbolPosition_pattern_priority_witness:
  "strIndex ''x = f; func x() {}'' (patterns ''x'' ! 6) = Some 0 \<and>
   strIndex ''x = f; func x() {}'' (patterns ''x'' ! 0) = Some 7 \<and>
   findSymbolPosition ''x = f; func x() {}'' ''x'' = Some \<lparr>Line = 0, Character = 7\<rparr>"
  using findSymbolPosition_pattern_priority [of 0 "''x = f; func x() {}''" "''x''" 0 7]
  by (simp add: patterns_def NL_def strIndex_Cons)

section \<open>The plain search is made line by line\<close>

text \<open>C2, as stated, fails.  A comment line that names the symbol stands before its
  declaration: no pattern occurs on line 0, the function-declaration pattern occurs on line 1,
  and the locator returns line 0, character 3, from the plain search of line 0.\<close>

theorem findSymbolPosition_comment_before_declaration:
  "splitLines (''// Foo'' @ [NL] @ ''func Foo() {}'') = [''// Foo'', ''func Foo() {}''] \<and>
   firstPatternIdx ''// Foo'' (patterns ''Foo'') = None \<and>
   firstPatternIdx ''func Foo() {}'' (patterns ''Foo'') = Some 0 \<and>
   findSymbolPosition (''// Foo'' @ [NL] @ ''func Foo() {}'') ''Foo'' = Some \<lparr>Line = 0, Character = 3\<rparr>"
  by (simp add: findSymbolPosition_def patterns_def NL_def strIndex_Cons)

text \<open>C2, amended.  The plain search belongs to the loop over the lines: the locator returns a
  position on the first line that contains the symbol as a plain substring, and when no
  pattern occurs on that line the character is the index of the first occurrence of the
  symbol in it.  A pattern occurring on a later line is never preferred.\<close>

theorem findSymbolPosition_first_line_with_symbol:
  assumes "i < length (splitLines content)"
    and "strContains (splitLines content ! i) symbol"
    and "\<forall>j<i. \<not> strContains (splitLines content ! j) symbol"
  shows "\<exists>p. findSymbolPosition content symbol = Some p \<and> Line p = int i \<and>
           (firstPatternIdx (splitLines content ! i) (patterns symbol) = None \<longrightarrow>
              map_option int (strIndex (splitLines content ! i) symbol) = Some (Character p))"
proof -
  obtain idx where idx: "strIndex (splitLines content ! i) symbol = Some idx"
    using assms(2) by (auto simp: strContains_def)
  show ?thesis
    unfolding findSymbolPosition_def scanLines_at_first [OF assms, of 0]
    using idx by (simp split: option.splits)
qed

text \<open>The amended statement on the comment line before the declaration.\<close>

theorem findSymbolPosition_first_line_with_symbol_witness:
  "\<exists>p. findSymbolPosition (''// Foo'' @ [NL] @ ''func Foo() {}'') ''Foo'' = Some p \<and> Line p = 0 \<and>
     map_option int (strIndex ''// Foo'' ''Foo'') = Some (Character p)"
  using findSymbolPosition_first_line_with_symbol [of 0 "''// Foo'' @ [NL] @ ''func Foo() {}''" "''Foo''"]
  by (simp add: strContains_def patterns_def NL_def strIndex_Cons)

section \<open>When the locator finds nothing\<close>

text \<open>C6, as stated, fails.  A symbol that contains a line feed occurs in the content and in
  none of its lines; the locator returns nothing.\<close>

theorem findSymbolPosition_symbol_across_lines:
  "findSymbolPosition (''a'' @ [NL] @ ''b'') (''a'' @ [NL] @ ''b'') = None \<and>
   sublist (''a'' @ [NL] @ ''b'') (''a'' @ [NL] @ ''b'')"
  by (simp add: findSymbolPosition_def patterns_def NL_def strIndex_Cons)

text \<open>C6, amended.  For a symbol that contains no line feed, the locator returns nothing
  exactly when the symbol occurs nowhere in the content as a substring.\<close>

theorem findSymbolPosition_None_iff_absent:
  assumes "NL \<notin> set symbol"
  shows "findSymbolPosition content symbol = None \<longleftrightarrow> \<not> sublist symbol content"
  unfolding findSymbolPosition_def scanLines_None strContains_sublist
  using splitLines_sublist [OF assms, of content] by blast

text \<open>The symbol \<open>Foo\<close> in a content that does not mention it.\<close>

theorem findSymbolPosition_None_iff_absent_witness:
  "NL \<notin> set ''Foo'' \<and> findSymbolPosition ''var x int'' ''Foo'' = None \<and> \<not> sublist ''Foo'' ''var x int''"
  using findSymbolPosition_None_iff_absent [of "''Foo''" "''var x int''"]
  by (simp add: findSymbolPosition_def patterns_def NL_def strIndex_Cons)

section \<open>Document identifiers\<close>

text \<open>C8. With a client that records its calls: the document identifier passed to \<open>DidOpen\<close> by
  \<open>initializeWorkspace\<close> and to \<open>GoToDefinition\<close> by \<open>getDefinitionAtPosition\<close> is the text
  \<open>file://\<close> followed by the file path; stripping the prefix \<open>file://\<close> from that identifier
  gives the path back; and \<open>getCodeAtLocation\<close> on a location with that identifier reads the
  file at the path: asked for the lines from the first to the last, it returns the content
  of that file.\<close>

theorem document_uri_prefix_and_strip:
  assumes "fs filePath = Inr content"
  shows "snd (initializeWorkspace (recorder answer) fs filePath log) =
           log @ (if CallInitialize \<in> set log then [] else [CallInitialize])
               @ [CallDidOpen (''file://'' @ filePath) ''go'' content] \<and>
         snd (getDefinitionAtPosition (recorder answer) filePath position log) =
           log @ [CallGoToDefinition (''file://'' @ filePath) (Line position) (Character position)] \<and>
         trimPrefix (''file://'' @ filePath) ''file://'' = filePath \<and>
         getCodeAtLocation fs
           \<lparr>URI = ''file://'' @ filePath,
            Range' = \<lparr>Start = \<lparr>Line = 0, Character = 0\<rparr>,
                      End = \<lparr>Line = int (length (splitLines content)) - 1, Character = 0\<rparr>\<rparr>\<rparr>
           = Returns (Inr content)"
proof (intro conjI)
  show "snd (initializeWorkspace (recorder answer) fs filePath log) =
           log @ (if CallInitialize \<in> set log then [] else [CallInitialize])
               @ [CallDidOpen (''file://'' @ filePath) ''go'' content]"
    using assms by (simp add: initializeWorkspace_def recorder_def)
  show "snd (getDefinitionAtPosition (recorder answer) filePath position log) =
           log @ [CallGoToDefinition (''file://'' @ filePath) (Line position) (Character position)]"
    by (simp add: getDefinitionAtPosition_def recorder_def Let_def split: sum.splits list.splits)
  show strip: "trimPrefix (''file://'' @ filePath) ''file://'' = filePath"
    by (simp add: trimPrefix_def)
  let ?loc = "\<lparr>URI = ''file://'' @ filePath,
            Range' = \<lparr>Start = \<lparr>Line = 0, Character = 0\<rparr>,
                      End = \<lparr>Line = int (length (splitLines content)) - 1, Character = 0\<rparr>\<rparr>\<rparr>"
  have readable: "fs (trimPrefix (URI ?loc) ''file://'') = Inr content"
    using assms strip by simp
  have whole: "linesOfRange (splitLines content) 0 (int (length (splitLines content)) - 1)
               = splitLines content"
    by (simp add: linesOfRange_def)
  have len: "0 < length (splitLines content)" by simp
  from getCodeAtLocation_readable [of fs ?loc content, OF readable]
  show "getCodeAtLocation fs ?loc = Returns (Inr content)"
    using whole len by (simp add: joinLines_splitLines)
qed

text \<open>The calls recorded for the path \<open>/a.go\<close>, and the content read back through its
  identifier.\<close>

theorem document_uri_prefix_and_strip_witness:
  "snd (initializeWorkspace (recorder (alwaysAnswer [])) (noFiles(''/a.go'' := Inr ''package a'')) ''/a.go'' [])
     = [CallInitialize, CallDidOpen ''file:///a.go'' ''go'' ''package a''] \<and>
   snd (getDefinitionAtPosition (recorder (alwaysAnswer [])) ''/a.go'' \<lparr>Line = 2, Character = 4\<rparr> [])
     = [CallGoToDefinition ''file:///a.go'' 2 4] \<and>
   trimPrefix ''file:///a.go'' ''file://'' = ''/a.go'' \<and>
   getCodeAtLocation (noFiles(''/a.go'' := Inr ''package a''))
     \<lparr>URI = ''file:///a.go'',
      Range' = \<lparr>Start = \<lparr>Line = 0, Character = 0\<rparr>, End = \<lparr>Line = 0, Character = 0\<rparr>\<rparr>\<rparr>
     = Returns (Inr ''package a'')"
proof -
  have f: "(noFiles(''/a.go'' := Inr ''package a'')) ''/a.go'' = Inr ''package a''" by simp
  have ls: "splitLines ''package a'' = [''package a'']" by code_simp
  show ?thesis
    using document_uri_prefix_and_strip [of "noFiles(''/a.go'' := Inr ''package a'')" "''/a.go''" "''package a''"
                 "alwaysAnswer []" "[]" "\<lparr>Line = 2, Character = 4\<rparr>", OF f]
    unfolding ls by simp
qed

section \<open>Line bounds of the excerpt\<close>

text \<open>C9, as stated, fails.  A start line of \<open>-1\<close> is below the number of lines, so it passes
  the test of the start line and the test inside the loop, and the index expression panics:
  \<open>getCodeAtLocation\<close> does not return.\<close>

theorem getCodeAtLocation_negative_start_panics:
  "getCodeAtLocation (noFiles(''/lib.go'' := Inr (''a'' @ [NL] @ ''b'')))
     \<lparr>URI = ''file:///lib.go'',
      Range' = \<lparr>Start = \<lparr>Line = - 1, Character = 0\<rparr>, End = \<lparr>Line = 0, Character = 0\<rparr>\<rparr>\<rparr>
   = Panics (IndexOutOfRange (- 1))"
  by code_simp

text \<open>C9, amended.  For a location whose start line is not negative, on a readable target
  file, \<open>getCodeAtLocation\<close> returns and does not panic: it returns the error
  \<open>start line out of bounds\<close> when the start line is not below the number of lines;
  otherwise the end line is clamped to the last line and the result is the text of the lines
  from the start line to the clamped end line, all of them lines of the file.  Every index
  expression of the loop is checked in the model, so a result that is returned has read no
  index outside the lines.\<close>

theorem getCodeAtLocation_line_bounds:
  assumes readable: "fs (trimPrefix (URI location) ''file://'') = Inr content"
    and start: "0 \<le> Line (Start (Range' location))"
  shows "(int (length (splitLines content)) \<le> Line (Start (Range' location)) \<longrightarrow>
            getCodeAtLocation fs location = Returns (Inl (Errorf ''start line out of bounds''))) \<and>
         (Line (Start (Range' location)) < int (length (splitLines content)) \<longrightarrow>
            getCodeAtLocation fs location =
              Returns (Inr (joinLines (map (\<lambda>i. splitLines content ! i)
                     [nat (Line (Start (Range' location))) ..<
                      nat (min (Line (End (Range' location)))
                               (int (length (splitLines content)) - 1) + 1)]))) \<and>
            nat (min (Line (End (Range' location)))
                     (int (length (splitLines content)) - 1) + 1) \<le> length (splitLines content))"
proof (intro conjI impI)
  assume "int (length (splitLines content)) \<le> Line (Start (Range' location))"
  then show "getCodeAtLocation fs location = Returns (Inl (Errorf ''start line out of bounds''))"
    by (simp add: getCodeAtLocation_readable [of fs location content, OF readable])
next
  assume s: "Line (Start (Range' location)) < int (length (splitLines content))"
  have "linesOfRange (splitLines content) (Line (Start (Range' location)))
          (Line (End (Range' location))) =
        map (\<lambda>i. splitLines content ! i)
          [nat (Line (Start (Range' location))) ..<
           nat (min (Line (End (Range' location))) (int (length (splitLines content)) - 1) + 1)]"
    using start s by (rule linesOfRange_nth)
  then show "getCodeAtLocation fs location =
              Returns (Inr (joinLines (map (\<lambda>i. splitLines content ! i)
                     [nat (Line (Start (Range' location))) ..<
                      nat (min (Line (End (Range' location)))
                               (int (length (splitLines content)) - 1) + 1)])))"
    using start s by (simp add: getCodeAtLocation_readable [of fs location content, OF readable])
next
  show "nat (min (Line (End (Range' location)))
                     (int (length (splitLines content)) - 1) + 1) \<le> length (splitLines content)"
    by auto
qed

text \<open>A file of three lines: a start line 3 is refused, and the range from line 1 to line 7
  gives lines 1 and 2.\<close>

theorem getCodeAtLocation_line_bounds_witness:
  "getCodeAtLocation (noFiles(''/lib.go'' := Inr (''a'' @ [NL] @ ''b'' @ [NL] @ ''c'')))
     \<lparr>URI = ''file:///lib.go'',
      Range' = \<lparr>Start = \<lparr>Line = 3, Character = 0\<rparr>, End = \<lparr>Line = 7, Character = 0\<rparr>\<rparr>\<rparr>
     = Returns (Inl (Errorf ''start line out of bounds'')) \<and>
   getCodeAtLocation (noFiles(''/lib.go'' := Inr (''a'' @ [NL] @ ''b'' @ [NL] @ ''c'')))
     \<lparr>URI = ''file:///lib.go'',
      Range' = \<lparr>Start = \<lparr>Line = 1, Character = 0\<rparr>, End = \<lparr>Line = 7, Character = 0\<rparr>\<rparr>\<rparr>
     = Returns (Inr (''b'' @ [NL] @ ''c''))"
proof -
  let ?fs = "noFiles(''/lib.go'' := Inr (''a'' @ [NL] @ ''b'' @ [NL] @ ''c''))"
  let ?out = "\<lparr>URI = ''file:///lib.go'',
      Range' = \<lparr>Start = \<lparr>Line = 3, Character = 0\<rparr>, End = \<lparr>Line = 7, Character = 0\<rparr>\<rparr>\<rparr>"
  let ?in = "\<lparr>URI = ''file:///lib.go'',
      Range' = \<lparr>Start = \<lparr>Line = 1, Character = 0\<rparr>, End = \<lparr>Line = 7, Character = 0\<rparr>\<rparr>\<rparr>"
  have f1: "?fs (trimPrefix (URI ?out) ''file://'') = Inr (''a'' @ [NL] @ ''b'' @ [NL] @ ''c'')"
    by (simp add: trimPrefix_def)
  have f2: "?fs (trimPrefix (URI ?in) ''file://'') = Inr (''a'' @ [NL] @ ''b'' @ [NL] @ ''c'')"
    by (simp add: trimPrefix_def)
  have s1: "0 \<le> Line (Start (Range' ?out))" and s2: "0 \<le> Line (Start (Range' ?in))"
    by simp_all
  have ls: "splitLines (''a'' @ [NL] @ ''b'' @ [NL] @ ''c'') = [''a'', ''b'', ''c'']"
    by code_simp
  have "getCodeAtLocation ?fs ?out = Returns (Inl (Errorf ''start line out of bounds''))"
    using getCodeAtLocation_line_bounds [where fs = "?fs" and location = "?out", OF f1 s1] unfolding ls by simp
  moreover have "getCodeAtLocation ?fs ?in = Returns (Inr (''b'' @ [NL] @ ''c''))"
    using getCodeAtLocation_line_bounds [where fs = "?fs" and location = "?in", OF f2 s2] unfolding ls
    by (simp add: upt_rec)
  ultimately show ?thesis by (rule conjI)
qed

section \<open>The first location and its excerpt\<close>



section \<open>Positions are printed one-based\<close>

text \<open>C10, as stated, fails.  For a definition on line \<open>9223372036854775807\<close>, the largest Go
  \<open>int\<close>, the sum with one wraps around and the report prints the line
  \<open>-9223372036854775808\<close>.\<close>

theorem GetCodeDefinitions_line_wraps_at_max_int:
  "GetCodeDefinitions
     (recorder (alwaysAnswer
        [\<lparr>URI = ''file:///lib.go'',
          Range' = \<lparr>Start = \<lparr>Line = 9223372036854775807, Character = 0\<rparr>,
                    End = \<lparr>Line = 9223372036854775807, Character = 3\<rparr>\<rparr>\<rparr>]))
     (noFiles(''/a.go'' := Inr ''x := Foo()'')) ''/a.go'' [''Foo''] []
   = Returns
      (Inr (''Code Definitions:'' @ [NL, NL]
          @ ''Symbol '' @ [SQ] @ ''Foo'' @ [SQ] @ '':'' @ [NL]
          @ ''  Location: file:///lib.go'' @ [NL]
          @ ''  Line: -9223372036854775808, Character: 1'' @ [NL] @ [NL]),
       [CallInitialize, CallDidOpen ''file:///a.go'' ''go'' ''x := Foo()'',
        CallGoToDefinition ''file:///a.go'' 0 5]) \<and>
   isGoInt 9223372036854775807"
proof -
  let ?loc = "\<lparr>URI = ''file:///lib.go'',
          Range' = \<lparr>Start = \<lparr>Line = 9223372036854775807, Character = 0\<rparr>,
                    End = \<lparr>Line = 9223372036854775807, Character = 3\<rparr>\<rparr>\<rparr>"
  let ?cl = "recorder (alwaysAnswer [?loc])"
  let ?fs = "noFiles(''/a.go'' := Inr ''x := Foo()'')"
  let ?c1 = "[CallInitialize, CallDidOpen ''file:///a.go'' ''go'' ''x := Foo()'']"
  let ?c2 = "[CallInitialize, CallDidOpen ''file:///a.go'' ''go'' ''x := Foo()'',
              CallGoToDefinition ''file:///a.go'' 0 5]"
  have init: "initializeWorkspace ?cl ?fs ''/a.go'' [] = (None, ?c1)"
    by (simp add: initializeWorkspace_def recorder_def)
  have content: "?fs ''/a.go'' = Inr ''x := Foo()''" by simp
  have pos: "findSymbolPosition ''x := Foo()'' ''Foo'' = Some \<lparr>Line = 0, Character = 5\<rparr>"
    by code_simp
  have answer: "GoToDefinition ?cl (''file://'' @ ''/a.go'') (Line \<lparr>Line = 0, Character = 5\<rparr>)
                  (Character \<lparr>Line = 0, Character = 5\<rparr>) ?c1
                = (Inr (?loc # []), ?c2)"
    by (simp add: recorder_def alwaysAnswer_def)
  have got: "getCodeAtLocation ?fs ?loc
             = Returns (Inl (ReadFileError ''open /lib.go: no such file or directory''))"
    by (simp add: getCodeAtLocation_def trimPrefix_def noFiles_def)
  have line: "showInt (goInt (Line (Start (Range' ?loc)) + 1)) = ''-9223372036854775808''"
    by (simp add: goInt_def showInt_def showNat.simps digitChar_def)
  have character: "showInt (goInt (Character (Start (Range' ?loc)) + 1)) = ''1''"
    by (simp add: goInt_def showInt_def showNat.simps digitChar_def)
  have entry: "reportEntry ?fs ''Foo'' (Defined ?loc) =
          ''Symbol '' @ [SQ] @ ''Foo'' @ [SQ] @ '':'' @ [NL]
          @ ''  Location: file:///lib.go'' @ [NL]
          @ ''  Line: -9223372036854775808, Character: 1'' @ [NL] @ [NL]"
    unfolding reportEntry.simps line character by (simp add: codeSection_def got)
  have loop: "lookupSymbols ?cl ?fs ''/a.go'' ''x := Foo()'' [''Foo'']
                (''Code Definitions:'' @ [NL, NL]) ?c1 =
              Returns ((''Code Definitions:'' @ [NL, NL]) @ reportEntry ?fs ''Foo'' (Defined ?loc), ?c2)"
    unfolding lookupSymbols_step_defined [OF pos answer] got by simp
  have "GetCodeDefinitions ?cl ?fs ''/a.go'' [''Foo''] [] =
        Returns (Inr ((''Code Definitions:'' @ [NL, NL]) @ reportEntry ?fs ''Foo'' (Defined ?loc)), ?c2)"
    unfolding GetCodeDefinitions_def init using content loop by (simp del: lookupSymbols.simps reportEntry.simps)
  moreover have "isGoInt 9223372036854775807" by (simp add: isGoInt_def)
  ultimately show ?thesis unfolding entry by simp
qed

text \<open>C10, amended.  In the block appended for a definition, the line and the character
  printed are the decimal texts of the start position of the definition plus one, and these
  texts denote those numbers, whenever the position plus one is a Go \<open>int\<close>, that is for every
  line and character below \<open>9223372036854775807\<close>.\<close>

theorem lookupSymbols_one_based_position:
  assumes pos: "findSymbolPosition fileContent symbol = Some position"
    and answer: "GoToDefinition cl (''file://'' @ filePath) (Line position) (Character position) c
                   = (Inr (first # others), c1)"
    and returns: "getCodeAtLocation fs first = Returns got"
    and line: "isGoInt (Line (Start (Range' first)) + 1)"
    and character: "isGoInt (Character (Start (Range' first)) + 1)"
  shows "\<exists>tail.
           lookupSymbols cl fs filePath fileContent (symbol # rest) results c =
           lookupSymbols cl fs filePath fileContent rest
             (results @ ''Symbol '' @ [SQ] @ symbol @ [SQ] @ '':'' @ [NL]
                @ ''  Location: '' @ URI first @ [NL]
                @ ''  Line: '' @ showInt (Line (Start (Range' first)) + 1)
                @ '', Character: '' @ showInt (Character (Start (Range' first)) + 1) @ [NL]
                @ tail) c1 \<and>
           signedValue (showInt (Line (Start (Range' first)) + 1))
             = Line (Start (Range' first)) + 1 \<and>
           signedValue (showInt (Character (Start (Range' first)) + 1))
             = Character (Start (Range' first)) + 1"
  unfolding lookupSymbols_step_defined [OF pos answer] returns signedValue_showInt
  using goInt_id [OF line] goInt_id [OF character]
  by (intro exI [of _ "codeSection fs first @ [NL]"]) simp

text \<open>A definition at line 9, character 0 is printed as line 10, character 1.\<close>

theorem lookupSymbols_one_based_position_witness:
  "findSymbolPosition ''x := Foo()'' ''Foo'' = Some \<lparr>Line = 0, Character = 5\<rparr> \<and>
   isGoInt (9 + 1) \<and> isGoInt (0 + 1) \<and> signedValue ''10'' = 10 \<and>
   (\<exists>tail. lookupSymbols
     (recorder (alwaysAnswer
        [\<lparr>URI = ''file:///lib.go'',
            Range' = \<lparr>Start = \<lparr>Line = 9, Character = 0\<rparr>, End = \<lparr>Line = 9, Character = 3\<rparr>\<rparr>\<rparr>]))
     noFiles ''/a.go'' ''x := Foo()'' [''Foo''] [] []
   = Returns (''Symbol '' @ [SQ] @ ''Foo'' @ [SQ] @ '':'' @ [NL]
          @ ''  Location: file:///lib.go'' @ [NL]
          @ ''  Line: 10, Character: 1'' @ [NL] @ tail,
        [CallGoToDefinition ''file:///a.go'' 0 5]))"
proof -
  let ?loc = "\<lparr>URI = ''file:///lib.go'',
            Range' = \<lparr>Start = \<lparr>Line = 9, Character = 0\<rparr>, End = \<lparr>Line = 9, Character = 3\<rparr>\<rparr>\<rparr>"
  let ?cl = "recorder (alwaysAnswer [?loc])"
  have pos: "findSymbolPosition ''x := Foo()'' ''Foo'' = Some \<lparr>Line = 0, Character = 5\<rparr>"
    by code_simp
  have answer: "GoToDefinition ?cl (''file://'' @ ''/a.go'') (Line \<lparr>Line = 0, Character = 5\<rparr>)
                  (Character \<lparr>Line = 0, Character = 5\<rparr>) []
                = (Inr (?loc # []), [CallGoToDefinition ''file:///a.go'' 0 5])"
    by (simp add: recorder_def alwaysAnswer_def)
  have returns: "getCodeAtLocation noFiles ?loc
                 = Returns (Inl (ReadFileError ''open /lib.go: no such file or directory''))"
    by code_simp
  have line: "isGoInt (Line (Start (Range' ?loc)) + 1)"
    and character: "isGoInt (Character (Start (Range' ?loc)) + 1)"
    by (simp_all add: isGoInt_def)
  have num: "showInt (Line (Start (Range' ?loc)) + 1) = ''10''"
            "showInt (Character (Start (Range' ?loc)) + 1) = ''1''"
    by code_simp+
  have range: "isGoInt (9 + 1)" "isGoInt (0 + 1)" by (simp_all add: isGoInt_def)
  from lookupSymbols_one_based_position [where fs = noFiles and rest = "[]" and results = "[]",
            OF pos answer returns line character]
  obtain tail where run:
    "lookupSymbols ?cl noFiles ''/a.go'' ''x := Foo()'' [''Foo''] [] [] =
     lookupSymbols ?cl noFiles ''/a.go'' ''x := Foo()'' []
       ([] @ ''Symbol '' @ [SQ] @ ''Foo'' @ [SQ] @ '':'' @ [NL]
          @ ''  Location: '' @ URI ?loc @ [NL]
          @ ''  Line: '' @ showInt (Line (Start (Range' ?loc)) + 1)
          @ '', Character: '' @ showInt (Character (Start (Range' ?loc)) + 1) @ [NL]
          @ tail) [CallGoToDefinition ''file:///a.go'' 0 5]"
    and "signedValue (showInt (Line (Start (Range' ?loc)) + 1)) = Line (Start (Range' ?loc)) + 1"
    by blast
  then have "lookupSymbols ?cl noFiles ''/a.go'' ''x := Foo()'' [''Foo''] [] [] =
     Returns (''Symbol '' @ [SQ] @ ''Foo'' @ [SQ] @ '':'' @ [NL]
          @ ''  Location: file:///lib.go'' @ [NL]
          @ ''  Line: 10, Character: 1'' @ [NL] @ tail,
        [CallGoToDefinition ''file:///a.go'' 0 5])"
    and "signedValue ''10'' = 10"
    unfolding num by simp_all
  with pos range show ?thesis by blast
qed

section \<open>Every requested symbol is reported\<close>

text \<open>C3, as stated, fails.  With the file read and the workspace initialized: when the
  location answered for \<open>Foo\<close> has the start line \<open>-1\<close> and a readable target, the excerpt
  panics and \<open>GetCodeDefinitions\<close> returns no report, for \<open>Foo\<close> or for the symbol after it;
  and the entry of a symbol that holds a line feed is not one line.\<close>

theorem GetCodeDefinitions_panic_and_two_line_entry:
  "fst (initializeWorkspace
          (recorder (alwaysAnswer
             [\<lparr>URI = ''file:///a.go'',
               Range' = \<lparr>Start = \<lparr>Line = - 1, Character = 0\<rparr>, End = \<lparr>Line = 0, Character = 3\<rparr>\<rparr>\<rparr>]))
          (noFiles(''/a.go'' := Inr ''x := Foo()'')) ''/a.go'' []) = None \<and>
   GetCodeDefinitions
     (recorder (alwaysAnswer
        [\<lparr>URI = ''file:///a.go'',
          Range' = \<lparr>Start = \<lparr>Line = - 1, Character = 0\<rparr>, End = \<lparr>Line = 0, Character = 3\<rparr>\<rparr>\<rparr>]))
     (noFiles(''/a.go'' := Inr ''x := Foo()'')) ''/a.go'' [''Foo'', ''x''] []
     = Panics (IndexOutOfRange (- 1)) \<and>
   GetCodeDefinitions (recorder (alwaysAnswer []))
     (noFiles(''/a.go'' := Inr ''x := Foo()'')) ''/a.go'' [''Foo'' @ [NL] @ ''Bar''] []
     = Returns (Inr (''Code Definitions:'' @ [NL, NL]
                     @ ''Symbol '' @ [SQ] @ ''Foo'' @ [NL] @ ''Bar'' @ [SQ]
                     @ '': Not found in file'' @ [NL]),
                [CallInitialize, CallDidOpen ''file:///a.go'' ''go'' ''x := Foo()'']) \<and>
   \<not> isOneLine (''Symbol '' @ [SQ] @ ''Foo'' @ [NL] @ ''Bar'' @ [SQ]
                  @ '': Not found in file'' @ [NL])"
  by code_simp

text \<open>C3, amended.  When \<open>initializeWorkspace\<close> succeeds (so the file was read and opened) and
  no definition used for a requested symbol has a negative start line,
  \<open>GetCodeDefinitions\<close> returns a report and no error, whatever else the client answers to
  the definition requests.  The report is the heading followed by one entry for each
  requested symbol, in the order requested: each entry begins with the quoted symbol, and it
  is the entry \<open>Not found in file\<close> exactly when the locator finds nothing, an entry
  \<open>Error getting definition\<close> when the request fails or returns no location, and a block
  with the location otherwise.  For a symbol without a line feed the not-found entry is one
  line, and so is the failure entry when the text of the error has no line feed.\<close>

theorem GetCodeDefinitions_covers_every_symbol:
  assumes init: "initializeWorkspace cl fs filePath c = (None, c1)"
    and content: "fs filePath = Inr content"
    and wf: "\<forall>loc. Defined loc \<in> set (symbolOutcomes cl filePath content symbols c1) \<longrightarrow>
               0 \<le> Line (Start (Range' loc))"
  shows "(\<exists>c2. GetCodeDefinitions cl fs filePath symbols c =
            Returns (Inr (''Code Definitions:'' @ [NL, NL]
                          @ concat (map2 (reportEntry fs) symbols
                              (symbolOutcomes cl filePath content symbols c1))), c2)) \<and>
         length (symbolOutcomes cl filePath content symbols c1) = length symbols \<and>
         (\<forall>i<length symbols.
            prefix (''Symbol '' @ [SQ] @ symbols ! i @ [SQ])
              (reportEntry fs (symbols ! i) (symbolOutcomes cl filePath content symbols c1 ! i)) \<and>
            (symbolOutcomes cl filePath content symbols c1 ! i = NotFound \<longleftrightarrow>
               findSymbolPosition content (symbols ! i) = None) \<and>
            (NL \<notin> set (symbols ! i) \<longrightarrow>
               (symbolOutcomes cl filePath content symbols c1 ! i = NotFound \<longrightarrow>
                  isOneLine (reportEntry fs (symbols ! i) NotFound)) \<and>
               (\<forall>err. symbolOutcomes cl filePath content symbols c1 ! i = Failed err \<longrightarrow>
                  NL \<notin> set (errorText err) \<longrightarrow>
                  isOneLine (reportEntry fs (symbols ! i) (Failed err)))))"
proof (intro conjI allI impI)
  let ?out = "symbolOutcomes cl filePath content symbols c1"
  from lookupSymbols_report [OF wf, of fs "''Code Definitions:'' @ [NL, NL]"]
  obtain c2 where loop:
    "lookupSymbols cl fs filePath content symbols (''Code Definitions:'' @ [NL, NL]) c1 =
     Returns ((''Code Definitions:'' @ [NL, NL]) @ concat (map2 (reportEntry fs) symbols ?out), c2)"
    by blast
  have "GetCodeDefinitions cl fs filePath symbols c =
          Returns (Inr (''Code Definitions:'' @ [NL, NL]
                        @ concat (map2 (reportEntry fs) symbols ?out)), c2)"
    using init content loop by (simp add: GetCodeDefinitions_def)
  then show "\<exists>c2. GetCodeDefinitions cl fs filePath symbols c =
            Returns (Inr (''Code Definitions:'' @ [NL, NL]
                          @ concat (map2 (reportEntry fs) symbols ?out)), c2)" ..
next
  show "length (symbolOutcomes cl filePath content symbols c1) = length symbols"
    by (rule symbolOutcomes_length)
next
  fix i
  show "prefix (''Symbol '' @ [SQ] @ symbols ! i @ [SQ])
          (reportEntry fs (symbols ! i) (symbolOutcomes cl filePath content symbols c1 ! i))"
    by (rule reportEntry_prefix)
next
  fix i assume "i < length symbols"
  then show "(symbolOutcomes cl filePath content symbols c1 ! i = NotFound) =
             (findSymbolPosition content (symbols ! i) = None)"
    by (rule symbolOutcomes_NotFound)
next
  fix i assume "NL \<notin> set (symbols ! i)"
  then show "isOneLine (reportEntry fs (symbols ! i) NotFound)"
    by (simp add: reportEntry_NotFound_oneLine del: reportEntry.simps)
next
  fix i err assume "NL \<notin> set (symbols ! i)" "NL \<notin> set (errorText err)"
  then show "isOneLine (reportEntry fs (symbols ! i) (Failed err))"
    by (simp add: reportEntry_Failed_oneLine del: reportEntry.simps)
qed

text \<open>The symbol \<open>Foo\<close> is found and defined, the symbol \<open>Missing\<close> is not in the file: the report
  has a block for the first and a line for the second.\<close>

theorem GetCodeDefinitions_covers_every_symbol_witness:
  "initializeWorkspace
     (recorder (alwaysAnswer
        [\<lparr>URI = ''file:///lib.go'',
          Range' = \<lparr>Start = \<lparr>Line = 1, Character = 5\<rparr>, End = \<lparr>Line = 2, Character = 1\<rparr>\<rparr>\<rparr>]))
     (noFiles(''/a.go'' := Inr ''x := Foo()'',
              ''/lib.go'' := Inr (''package lib'' @ [NL] @ ''func Foo() {'' @ [NL] @ ''}'' @ [NL])))
     ''/a.go'' []
   = (None, [CallInitialize, CallDidOpen ''file:///a.go'' ''go'' ''x := Foo()'']) \<and>
   (\<exists>c2. GetCodeDefinitions
     (recorder (alwaysAnswer
        [\<lparr>URI = ''file:///lib.go'',
          Range' = \<lparr>Start = \<lparr>Line = 1, Character = 5\<rparr>, End = \<lparr>Line = 2, Character = 1\<rparr>\<rparr>\<rparr>]))
     (noFiles(''/a.go'' := Inr ''x := Foo()'',
              ''/lib.go'' := Inr (''package lib'' @ [NL] @ ''func Foo() {'' @ [NL] @ ''}'' @ [NL])))
     ''/a.go'' [''Foo'', ''Missing''] []
   = Returns
      (Inr (''Code Definitions:'' @ [NL, NL]
          @ ''Symbol '' @ [SQ] @ ''Foo'' @ [SQ] @ '':'' @ [NL]
          @ ''  Location: file:///lib.go'' @ [NL]
          @ ''  Line: 2, Character: 6'' @ [NL]
          @ ''  Code:'' @ [NL]
          @ ''func Foo() {'' @ [NL]
          @ ''}'' @ [NL] @ [NL]
          @ ''Symbol '' @ [SQ] @ ''Missing'' @ [SQ] @ '': Not found in file'' @ [NL]), c2))"
proof -
  let ?loc = "\<lparr>URI = ''file:///lib.go'',
          Range' = \<lparr>Start = \<lparr>Line = 1, Character = 5\<rparr>, End = \<lparr>Line = 2, Character = 1\<rparr>\<rparr>\<rparr>"
  let ?cl = "recorder (alwaysAnswer [?loc])"
  let ?fs = "noFiles(''/a.go'' := Inr ''x := Foo()'',
              ''/lib.go'' := Inr (''package lib'' @ [NL] @ ''func Foo() {'' @ [NL] @ ''}'' @ [NL]))"
  let ?c1 = "[CallInitialize, CallDidOpen ''file:///a.go'' ''go'' ''x := Foo()'']"
  have init: "initializeWorkspace ?cl ?fs ''/a.go'' [] = (None, ?c1)" by code_simp
  have content: "?fs ''/a.go'' = Inr ''x := Foo()''" by simp
  have out: "symbolOutcomes ?cl ''/a.go'' ''x := Foo()'' [''Foo'', ''Missing''] ?c1
             = [Defined ?loc, NotFound]"
    by code_simp
  have wf: "\<forall>loc. Defined loc \<in> set (symbolOutcomes ?cl ''/a.go'' ''x := Foo()''
                     [''Foo'', ''Missing''] ?c1) \<longrightarrow> 0 \<le> Line (Start (Range' loc))"
    unfolding out by simp
  have entries: "concat (map2 (reportEntry ?fs) [''Foo'', ''Missing''] [Defined ?loc, NotFound])
             = ''Symbol '' @ [SQ] @ ''Foo'' @ [SQ] @ '':'' @ [NL]
                  @ ''  Location: file:///lib.go'' @ [NL]
                  @ ''  Line: 2, Character: 6'' @ [NL]
                  @ ''  Code:'' @ [NL] @ ''func Foo() {'' @ [NL] @ ''}'' @ [NL] @ [NL]
                  @ ''Symbol '' @ [SQ] @ ''Missing'' @ [SQ] @ '': Not found in file'' @ [NL]"
    by code_simp
  from GetCodeDefinitions_covers_every_symbol [where fs = "?fs", OF init content wf]
  have "\<exists>c2. GetCodeDefinitions ?cl ?fs ''/a.go'' [''Foo'', ''Missing''] [] =
          Returns (Inr (''Code Definitions:'' @ [NL, NL]
             @ concat (map2 (reportEntry ?fs) [''Foo'', ''Missing'']
                 (symbolOutcomes ?cl ''/a.go'' ''x := Foo()'' [''Foo'', ''Missing''] ?c1))), c2)"
    by (rule conjunct1)
  then have "\<exists>c2. GetCodeDefinitions ?cl ?fs ''/a.go'' [''Foo'', ''Missing''] [] =
          Returns (Inr (''Code Definitions:'' @ [NL, NL]
          @ ''Symbol '' @ [SQ] @ ''Foo'' @ [SQ] @ '':'' @ [NL]
          @ ''  Location: file:///lib.go'' @ [NL]
          @ ''  Line: 2, Character: 6'' @ [NL]
          @ ''  Code:'' @ [NL]
          @ ''func Foo() {'' @ [NL]
          @ ''}'' @ [NL] @ [NL]
          @ ''Symbol '' @ [SQ] @ ''Missing'' @ [SQ] @ '': Not found in file'' @ [NL]), c2)"
    unfolding out entries .
  with init show ?thesis by (rule conjI)
qed

section \<open>The handshake is made once\<close>

text \<open>C4. On the session modelled from the spec, \<open>Initialize\<close> on a ready session fails with
  \<open>AlreadyInitializedError\<close> and leaves the session as it was.\<close>

theorem Initialize_when_Ready:
  assumes "state s = Ready"
  shows "Initialize (sessionClient sub) s = (Some AlreadyInitializedError, s)"
  using assms by (simp add: sessionClient_def sessionInitialize_def)

text \<open>A first \<open>Initialize\<close> on a new session succeeds and makes it ready; the second fails.\<close>

theorem Initialize_when_Ready_witness:
  "Initialize (sessionClient \<lparr>acceptsInitialize = True, pipeBroken = False,
                              definitionAnswer = (\<lambda>uri l ch. Inr [])\<rparr>) newSession
     = (None, \<lparr>state = Ready, nextId = 2,
               written = [Request 1 ''initialize'' NoParams, Notification ''initialized'' NoParams]\<rparr>) \<and>
   Initialize (sessionClient \<lparr>acceptsInitialize = True, pipeBroken = False,
                              definitionAnswer = (\<lambda>uri l ch. Inr [])\<rparr>)
      \<lparr>state = Ready, nextId = 2,
       written = [Request 1 ''initialize'' NoParams, Notification ''initialized'' NoParams]\<rparr>
     = (Some AlreadyInitializedError,
        \<lparr>state = Ready, nextId = 2,
         written = [Request 1 ''initialize'' NoParams, Notification ''initialized'' NoParams]\<rparr>)"
proof -
  let ?sub = "\<lparr>acceptsInitialize = True, pipeBroken = False,
              definitionAnswer = (\<lambda>uri l ch. Inr [])\<rparr>"
  let ?s1 = "\<lparr>state = Ready, nextId = 2,
       written = [Request 1 ''initialize'' NoParams, Notification ''initialized'' NoParams]\<rparr>"
  have first: "Initialize (sessionClient ?sub) newSession = (None, ?s1)"
    by (simp add: sessionClient_def sessionInitialize_def newSession_def sendRequest_def
        notify_def Let_def)
  have ready: "state ?s1 = Ready" by simp
  from first Initialize_when_Ready [OF ready, of ?sub] show ?thesis by (rule conjI)
qed

end
